theory Spec2Isabelle
  imports Complex_Main "HOL-Library.Word" "HOL-Library.AList"
begin

unbundle bit_operations_syntax

section \<open>Python values used by the library\<close>

text \<open>
  A Python \<open>bytes\<close> object is a list of 8-bit words; indexing it gives an unbounded
  integer (\<open>uint\<close> of the word).  The exceptions the modelled code can raise are values
  of \<open>exn\<close>; a computation that may raise returns \<open>exn + 'a\<close>, \<open>Inl\<close> being the raise.
\<close>

type_synonym byte = "8 word"
type_synonym bytes = "byte list"

datatype exn =
    BleakError
  | TimeoutError
  | TypeError
  | IndexError
  | KeyError
  | ValueError
  | UnicodeEncodeError

text \<open>
  \<open>data[i]\<close> for a constant index \<open>i \<ge> 0\<close>: the byte when it exists, IndexError
  otherwise.  The continuation receives the byte, so a decoder reads its bytes in the
  order the source does.
\<close>

definition item :: "bytes \<Rightarrow> nat \<Rightarrow> (byte \<Rightarrow> exn + 'a) \<Rightarrow> exn + 'a" where
  "item data i k = (if i < length data then k (data ! i) else Inl IndexError)"

section \<open>Payload codec: advertisement decoders\<close>

record bot_data =
  bot_switchMode :: bool
  bot_isOn :: bool
  bot_battery :: int

text \<open>\<open>_process_wohand(data)\<close>.\<close>

definition process_wohand :: "bytes \<Rightarrow> exn + bot_data" where
  "process_wohand data =
     item data 1 (\<lambda>b1.
       let switchMode = (b1 AND 0x80 \<noteq> 0);
           isOn = (if switchMode then \<not> (b1 AND 0x40 \<noteq> 0) else False)
       in item data 2 (\<lambda>b2.
            Inr \<lparr>bot_switchMode = switchMode, bot_isOn = isOn,
                 bot_battery = uint (b2 AND 0x7F)\<rparr>))"

record curtain_data =
  curtain_calibration :: bool
  curtain_battery :: int
  curtain_inMotion :: bool
  curtain_position :: int
  curtain_lightLevel :: int
  curtain_deviceChain :: int

text \<open>\<open>_process_wocurtain(data, reverse=True)\<close>; the caller passes \<open>reverse\<close>.\<close>

definition process_wocurtain :: "bytes \<Rightarrow> bool \<Rightarrow> exn + curtain_data" where
  "process_wocurtain data reverse =
     item data 1 (\<lambda>b1.
     item data 2 (\<lambda>b2.
     item data 3 (\<lambda>b3.
       let position = max (min (uint (b3 AND 0x7F)) 100) 0
       in item data 4 (\<lambda>b4.
            Inr \<lparr>curtain_calibration = (b1 AND 0x40 \<noteq> 0),
                 curtain_battery = uint (b2 AND 0x7F),
                 curtain_inMotion = (b3 AND 0x80 \<noteq> 0),
                 curtain_position = (if reverse then 100 - position else position),
                 curtain_lightLevel = uint (drop_bit 4 b4 AND 0x0F),
                 curtain_deviceChain = uint (b4 AND 0x07)\<rparr>))))"

text \<open>
  \<open>_process_wosensorth(data)\<close>.  Python computes the temperatures in binary64
  floating point; the model keeps the exact real value of each expression, of which
  the float is the rounding (rounding is monotone and exact at 0, so signs agree).
\<close>

record sensorth_data =
  th_temp_c :: real
  th_temp_f :: real
  th_fahrenheit :: bool
  th_humidity :: int
  th_battery :: int

definition process_wosensorth :: "bytes \<Rightarrow> exn + sensorth_data" where
  "process_wosensorth data =
     item data 4 (\<lambda>b4.
       let temp_sign = (if b4 AND 0x80 \<noteq> 0 then 1 else - 1 :: real)
       in item data 3 (\<lambda>b3.
            let temp_c = temp_sign * (of_int (uint (b4 AND 0x7F)) + of_int (uint b3) / 10);
                temp_f = (temp_c * 9 / 5) + 32;
                temp_f = (temp_f * 10) / 10
            in item data 5 (\<lambda>b5.
               item data 2 (\<lambda>b2.
                 Inr \<lparr>th_temp_c = temp_c, th_temp_f = temp_f,
                      th_fahrenheit = (b5 AND 0x80 \<noteq> 0),
                      th_humidity = uint (b5 AND 0x7F),
                      th_battery = uint (b2 AND 0x7F)\<rparr>))))"

section \<open>Rendering integers as text\<close>

text \<open>
  \<open>radix ds n\<close> writes \<open>n\<close> in base \<open>length ds\<close> with the digit characters \<open>ds\<close>, most
  significant digit first and without leading zeros (\<open>0\<close> is one digit), as Python's
  \<open>%x\<close>, \<open>%X\<close> and \<open>str\<close> do for a non-negative integer.
\<close>

function radix :: "string \<Rightarrow> nat \<Rightarrow> string" where
  "radix ds n =
     (if length ds < 2 \<or> n < length ds then [ds ! n]
      else radix ds (n div length ds) @ [ds ! (n mod length ds)])"
  by pat_completeness auto
termination
  by (relation "measure (\<lambda>(ds, n). n)") auto

definition hex_lower :: "nat \<Rightarrow> string" where
  "hex_lower n = radix ''0123456789abcdef'' n"

definition hex_upper :: "nat \<Rightarrow> string" where
  "hex_upper n = radix ''0123456789ABCDEF'' n"

definition decimal :: "nat \<Rightarrow> string" where
  "decimal n = radix ''0123456789'' n"

definition zfill :: "nat \<Rightarrow> string \<Rightarrow> string" where
  "zfill w s = replicate (w - length s) CHR ''0'' @ s"

text \<open>\<open>f"{n}"\<close> for an integer.\<close>

definition str_int :: "int \<Rightarrow> string" where
  "str_int n = (if n < 0 then ''-'' @ decimal (nat (- n)) else decimal (nat n))"

text \<open>
  \<open>f"{n:0{2}x}"\<close>, the format \<open>02x\<close>: lower-case hexadecimal, zero-filled to a width of 2
  that counts the sign, so a negative number is never padded.
\<close>

definition format_02x :: "int \<Rightarrow> string" where
  "format_02x n =
     (if n < 0 then zfill 2 (''-'' @ hex_lower (nat (- n))) else zfill 2 (hex_lower (nat n)))"

text \<open>
  \<open>"%0.2X" % n\<close>: upper-case hexadecimal with at least 2 digits (the precision), the sign
  in front of them.
\<close>

definition percent_02X :: "int \<Rightarrow> string" where
  "percent_02X n =
     (if n < 0 then ''-'' @ zfill 2 (hex_upper (nat (- n))) else zfill 2 (hex_upper (nat n)))"

text \<open>\<open>format(b, "b")\<close> for a bool: the binary digit of 1 or 0.\<close>

definition format_bool_b :: "bool \<Rightarrow> string" where
  "format_bool_b b = (if b then ''1'' else ''0'')"

section \<open>Discovery aggregator: \<open>GetSwitchbotDevices\<close>\<close>

text \<open>The scanner's view of a device and of one advertisement (bleak's objects).\<close>

record ble_device =
  address :: string
  rssi :: int

text \<open>\<open>service_data\<close> is a dict from service UUID to payload, kept in insertion order.\<close>

record advertisement_data =
  adv_service_data :: "(string \<times> bytes) list"

text \<open>
  The value stored under \<open>"data"\<close>: first \<open>{"rssi": ...}\<close>, then replaced by the decoded
  state of the recognised model.
\<close>

datatype decoded =
    Rssi int
  | WoHand bot_data
  | WoCurtain curtain_data
  | WoSensorTH sensorth_data

record device_entry =
  mac_address :: string
  service_data :: bytes
  isEncrypted :: bool
  model :: char
  modelName :: "string option"
  entry_data :: decoded

text \<open>
  The object's fields.  Both dicts are association lists in insertion order; assigning
  to an existing key keeps its place (\<open>AList.update\<close>).
\<close>

record scanner =
  scan_interface :: string
  all_services_data :: "(string \<times> device_entry) list"
  scan_data :: "(string \<times> device_entry) list"

definition GetSwitchbotDevices_init :: "int \<Rightarrow> scanner" where
  "GetSwitchbotDevices_init interface =
     \<lparr>scan_interface = ''hci'' @ str_int interface, all_services_data = [], scan_data = []\<rparr>"

text \<open>\<open>chr(n)\<close> for \<open>n\<close> below 128, and \<open>address.replace(":", "")\<close>.\<close>

definition chr :: "byte \<Rightarrow> char" where
  "chr b = char_of (unat b)"

definition remove_colons :: "string \<Rightarrow> string" where
  "remove_colons s = filter (\<lambda>c. c \<noteq> CHR '':'') s"

text \<open>
  \<open>detection_callback(device, advertisement_data)\<close>.  The result is the exception raised
  (if any) and the object after the call: the writes made before a raise stay.
\<close>

definition detection_callback ::
    "scanner \<Rightarrow> ble_device \<Rightarrow> advertisement_data \<Rightarrow> exn option \<times> scanner" where
  "detection_callback self device adv =
     (let dev = remove_colons (address device) in
      case map snd (adv_service_data adv) of
        [] \<Rightarrow> (Some IndexError, self)
      | sd # _ \<Rightarrow>
         (case sd of
            [] \<Rightarrow> (Some IndexError, self)
          | b0 # _ \<Rightarrow>
             let m = chr (b0 AND 0x7F);
                 entry = \<lparr>mac_address = address device, service_data = sd,
                          isEncrypted = (b0 AND 0x80 \<noteq> 0), model = m, modelName = None,
                          entry_data = Rssi (rssi device)\<rparr>;
                 self1 = self\<lparr>scan_data := AList.update dev entry (scan_data self)\<rparr>;
                 named = (\<lambda>n. self1\<lparr>scan_data :=
                            AList.map_entry dev (\<lambda>e. e\<lparr>modelName := Some n\<rparr>) (scan_data self1)\<rparr>);
                 decoded_as = (\<lambda>s d. s\<lparr>scan_data :=
                            AList.map_entry dev (\<lambda>e. e\<lparr>entry_data := d\<rparr>) (scan_data s)\<rparr>)
             in if m = CHR ''H'' then
                  (case process_wohand sd of
                     Inl e \<Rightarrow> (Some e, named ''WoHand'')
                   | Inr d \<Rightarrow> (None, decoded_as (named ''WoHand'') (WoHand d)))
                else if m = CHR ''c'' then
                  (case process_wocurtain sd True of
                     Inl e \<Rightarrow> (Some e, named ''WoCurtain'')
                   | Inr d \<Rightarrow> (None, decoded_as (named ''WoCurtain'') (WoCurtain d)))
                else if m = CHR ''T'' then
                  (case process_wosensorth sd of
                     Inl e \<Rightarrow> (Some e, named ''WoSensorTH'')
                   | Inr d \<Rightarrow> (None, decoded_as (named ''WoSensorTH'') (WoSensorTH d)))
                else (None, self1)))"

text \<open>
  The scan window of \<open>discover\<close>: the BLE stack calls \<open>detection_callback\<close> once per
  advertisement it sees, in order of arrival; \<open>discover\<close> then returns \<open>self._data\<close>.
  (Its \<open>devices is None\<close> branch cannot run: \<open>devices\<close> was just bound to the scanner.)
\<close>

definition observe :: "scanner \<Rightarrow> (ble_device \<times> advertisement_data) list \<Rightarrow> scanner" where
  "observe self seen = fold (\<lambda>(device, adv) s. snd (detection_callback s device adv)) seen self"

definition discover ::
    "scanner \<Rightarrow> (ble_device \<times> advertisement_data) list
       \<Rightarrow> (string \<times> device_entry) list \<times> scanner" where
  "discover self seen = (let self' = observe self seen in (scan_data self', self'))"

text \<open>
  The getters read \<open>self._all_services_data\<close>.  When it is empty they call
  \<open>self.discover()\<close> without awaiting it: that builds a coroutine object and runs none of
  its body, so the object is unchanged and the loop runs over the same dict.  The result
  \<open>{}\<close> of \<open>get_device_data\<close> is \<open>None\<close>.
\<close>

definition get_by_model :: "scanner \<Rightarrow> char \<Rightarrow> (string \<times> device_entry) list" where
  "get_by_model self letter =
     filter (\<lambda>(device, d). model d = letter) (all_services_data self)"

definition get_curtains :: "scanner \<Rightarrow> (string \<times> device_entry) list" where
  "get_curtains self = get_by_model self CHR ''c''"

definition get_bots :: "scanner \<Rightarrow> (string \<times> device_entry) list" where
  "get_bots self = get_by_model self CHR ''H''"

definition get_tempsensors :: "scanner \<Rightarrow> (string \<times> device_entry) list" where
  "get_tempsensors self = get_by_model self CHR ''T''"

definition get_device_data :: "scanner \<Rightarrow> string \<Rightarrow> device_entry option" where
  "get_device_data self mac =
     fold (\<lambda>device found. if mac_address device = mac then Some device else found)
       (map snd (all_services_data self)) None"

section \<open>Constants\<close>

definition DEFAULT_RETRY_COUNT :: int where "DEFAULT_RETRY_COUNT = 3"
definition DEFAULT_RETRY_TIMEOUT :: int where "DEFAULT_RETRY_TIMEOUT = 1"
definition DEFAULT_SCAN_TIMEOUT :: int where "DEFAULT_SCAN_TIMEOUT = 5"

definition DEVICE_GET_BASIC_SETTINGS_KEY :: string where "DEVICE_GET_BASIC_SETTINGS_KEY = ''5702''"
definition DEVICE_SET_MODE_KEY :: string where "DEVICE_SET_MODE_KEY = ''5703''"
definition DEVICE_SET_EXTENDED_KEY :: string where "DEVICE_SET_EXTENDED_KEY = ''570f''"

definition PRESS_KEY :: string where "PRESS_KEY = ''570100''"
definition ON_KEY :: string where "ON_KEY = ''570101''"
definition OFF_KEY :: string where "OFF_KEY = ''570102''"

definition OPEN_KEY :: string where "OPEN_KEY = ''570f450105ff00''"
definition CLOSE_KEY :: string where "CLOSE_KEY = ''570f450105ff64''"
definition POSITION_KEY :: string where "POSITION_KEY = ''570F450105ff''"
definition STOP_KEY :: string where "STOP_KEY = ''570F450100ff''"

definition KEY_PASSWORD_PREFIX :: string where "KEY_PASSWORD_PREFIX = ''571''"

section \<open>Device identity and the password token\<close>

text \<open>
  \<open>binascii.crc32\<close> (the standard library's, not this repository's): the reflected
  CRC-32 of zlib, polynomial \<open>0xEDB88320\<close>, register preset to and finally inverted by
  \<open>0xFFFFFFFF\<close>, one bit at a time.
\<close>

definition crc32_shift :: "32 word \<Rightarrow> 32 word" where
  "crc32_shift c = (if bit c 0 then drop_bit 1 c XOR 0xEDB88320 else drop_bit 1 c)"

definition crc32_update :: "32 word \<Rightarrow> byte \<Rightarrow> 32 word" where
  "crc32_update c b = (crc32_shift ^^ 8) (c XOR ucast b)"

definition crc32 :: "bytes \<Rightarrow> 32 word" where
  "crc32 data = foldl crc32_update 0xFFFFFFFF data XOR 0xFFFFFFFF"

text \<open>\<open>s.encode("ascii")\<close>: a character outside ASCII raises.\<close>

definition encode_ascii :: "string \<Rightarrow> exn + bytes" where
  "encode_ascii s =
     (if list_all (\<lambda>c. (of_char c :: nat) < 128) s then Inr (map of_char s)
      else Inl UnicodeEncodeError)"

text \<open>The keyword arguments the constructors pop; \<open>None\<close> is a keyword not given.\<close>

record kwargs =
  kw_scan_timeout :: "int option"
  kw_retry_count :: "int option"
  kw_inverse_mode :: "bool option"
  kw_reverse_mode :: "bool option"

definition pop :: "'a option \<Rightarrow> 'a \<Rightarrow> 'a" where
  "pop given fallback = (case given of None \<Rightarrow> fallback | Some v \<Rightarrow> v)"

text \<open>
  The fields of \<open>SwitchbotDevice\<close>.  \<open>_switchbot_device_data\<close> is \<open>None\<close> for the empty dict
  \<open>{}\<close>.  The BLE client \<open>_device\<close> is the \<open>link\<close> passed to the operations below.
\<close>

record switchbot_device =
  dev_interface :: string
  dev_mac :: string
  switchbot_device_data :: "device_entry option"
  scan_timeout :: int
  retry_count :: int
  password_encoded :: "string option"

definition SwitchbotDevice_init ::
    "string \<Rightarrow> string option \<Rightarrow> int \<Rightarrow> kwargs \<Rightarrow> exn + switchbot_device" where
  "SwitchbotDevice_init mac password interface kw =
     (let self = \<lparr>dev_interface = ''hci'' @ str_int interface, dev_mac = mac,
                  switchbot_device_data = None,
                  scan_timeout = pop (kw_scan_timeout kw) DEFAULT_SCAN_TIMEOUT,
                  retry_count = pop (kw_retry_count kw) DEFAULT_RETRY_COUNT,
                  password_encoded = None\<rparr>
      in case password of
           None \<Rightarrow> Inr self
         | Some pw \<Rightarrow>
            if pw = [] then Inr self
            else (case encode_ascii pw of
                    Inl e \<Rightarrow> Inl e
                  | Inr bs \<Rightarrow>
                     Inr (self\<lparr>password_encoded :=
                                 Some (hex_lower (unat (crc32 bs AND 0xFFFFFFFF)))\<rparr>)))"

text \<open>
  The body of \<open>_commandkey(key)\<close>, what awaiting the coroutine gives.  \<open>key[3]\<close> raises on
  a key shorter than 4 characters; the slice \<open>key[4:]\<close> never raises.
\<close>

definition commandkey :: "switchbot_device \<Rightarrow> string \<Rightarrow> exn + string" where
  "commandkey self key =
     (case password_encoded self of
        None \<Rightarrow> Inr key
      | Some token \<Rightarrow>
         if length key \<le> 3 then Inl IndexError
         else (let key_action = [key ! 3]; key_suffix = drop 4 key
               in Inr (KEY_PASSWORD_PREFIX @ key_action @ token @ key_suffix)))"

section \<open>The BLE link\<close>

text \<open>
  The BLE client is outside the repository.  It is modelled by what each of its calls
  does: the \<open>i\<close>-th call of an operation (counting from 0) returns or raises as the
  \<open>link\<close> says.  The event list holds the calls made on the client, and the sleeps, in order;
  it is the state the operations pass on.
\<close>

datatype outcome = Returns | Raises exn

datatype event = Connect | Subscribe | Write bytes | Read | Disconnect | Sleep int

record link =
  connect_does :: "nat \<Rightarrow> outcome"
  subscribe_does :: "nat \<Rightarrow> outcome"
  write_does :: "nat \<Rightarrow> outcome"
  read_does :: "nat \<Rightarrow> exn + bytes"
  disconnect_does :: "nat \<Rightarrow> outcome"

fun is_write :: "event \<Rightarrow> bool" where
  "is_write (Write bs) = True"
| "is_write e = False"

definition written :: "event list \<Rightarrow> nat" where
  "written evs = length (filter is_write evs)"

text \<open>\<open>_connect\<close> logs and re-raises what \<open>connect\<close> raises.\<close>

definition connect :: "link \<Rightarrow> event list \<Rightarrow> outcome \<times> event list" where
  "connect dev evs = (connect_does dev (count_list evs Connect), evs @ [Connect])"

text \<open>\<open>_disconnect\<close> swallows a BleakError of \<open>disconnect\<close> and lets any other pass.\<close>

definition disconnect :: "link \<Rightarrow> event list \<Rightarrow> outcome \<times> event list" where
  "disconnect dev evs =
     ((case disconnect_does dev (count_list evs Disconnect) of
         Raises BleakError \<Rightarrow> Returns
       | r \<Rightarrow> r),
      evs @ [Disconnect])"

definition subscribe :: "link \<Rightarrow> event list \<Rightarrow> outcome \<times> event list" where
  "subscribe dev evs = (subscribe_does dev (count_list evs Subscribe), evs @ [Subscribe])"

definition readkey :: "link \<Rightarrow> event list \<Rightarrow> (exn + bytes) \<times> event list" where
  "readkey dev evs = (read_does dev (count_list evs Read), evs @ [Read])"

text \<open>
  What \<open>_sendcommand\<close> passes to \<open>_writekey\<close>.  \<open>_commandkey\<close> is an \<open>async def\<close> and
  \<open>_sendcommand\<close> calls it without \<open>await\<close>, so \<open>command\<close> is the coroutine object, not
  the string it would give; \<open>Coroutine r\<close> is that object, \<open>r\<close> what awaiting it would
  give.  \<open>Text s\<close> is a string, the argument \<open>_writekey\<close> is annotated with.
\<close>

datatype command = Text string | Coroutine "exn + string"

text \<open>
  \<open>bytearray.fromhex\<close>: two hexadecimal digits per byte, ASCII whitespace skipped between
  bytes, ValueError on anything else and TypeError on an argument that is no string.
\<close>

definition hex_digit :: "char \<Rightarrow> nat option" where
  "hex_digit c =
     (let n = (of_char c :: nat) in
      if 48 \<le> n \<and> n \<le> 57 then Some (n - 48)
      else if 97 \<le> n \<and> n \<le> 102 then Some (n - 87)
      else if 65 \<le> n \<and> n \<le> 70 then Some (n - 55)
      else None)"

definition is_space :: "char \<Rightarrow> bool" where
  "is_space c = ((of_char c :: nat) = 32 \<or> (9 \<le> (of_char c :: nat) \<and> (of_char c :: nat) \<le> 13))"

fun fromhex :: "string \<Rightarrow> bytes option" where
  "fromhex [] = Some []"
| "fromhex [c] = (if is_space c then Some [] else None)"
| "fromhex (c # d # cs) =
     (if is_space c then fromhex (d # cs)
      else (case (hex_digit c, hex_digit d) of
              (Some h, Some l) \<Rightarrow> map_option ((#) (of_nat (16 * h + l))) (fromhex cs)
            | _ \<Rightarrow> None))"

definition bytearray_fromhex :: "command \<Rightarrow> exn + bytes" where
  "bytearray_fromhex key =
     (case key of
        Coroutine r \<Rightarrow> Inl TypeError
      | Text s \<Rightarrow> (case fromhex s of None \<Rightarrow> Inl ValueError | Some bs \<Rightarrow> Inr bs))"

text \<open>
  \<open>_writekey(key)\<close>: the argument of \<open>write_gatt_char\<close> is evaluated first, so a failing
  \<open>fromhex\<close> raises before the client is called.
\<close>

definition writekey :: "link \<Rightarrow> command \<Rightarrow> event list \<Rightarrow> outcome \<times> event list" where
  "writekey dev key evs =
     (case bytearray_fromhex key of
        Inl e \<Rightarrow> (Raises e, evs)
      | Inr bs \<Rightarrow> (write_does dev (written evs), evs @ [Write bs]))"

section \<open>Transaction engine: \<open>_sendcommand\<close>\<close>

text \<open>
  The \<open>try\<close> block of \<open>_sendcommand\<close>: connect, subscribe, write, read, stopping at the
  first call that raises.
\<close>

definition try_block :: "link \<Rightarrow> command \<Rightarrow> event list \<Rightarrow> (exn + bytes) \<times> event list" where
  "try_block dev command evs =
     (case connect dev evs of
        (Raises e, evs1) \<Rightarrow> (Inl e, evs1)
      | (Returns, evs1) \<Rightarrow>
         (case subscribe dev evs1 of
            (Raises e, evs2) \<Rightarrow> (Inl e, evs2)
          | (Returns, evs2) \<Rightarrow>
             (case writekey dev command evs2 of
                (Raises e, evs3) \<Rightarrow> (Inl e, evs3)
              | (Returns, evs3) \<Rightarrow> readkey dev evs3)))"

text \<open>
  The whole \<open>try / except bleak.BleakError / finally\<close> statement.  \<open>notify_msg\<close> starts as
  \<open>b"\x00"\<close> and keeps that value when a BleakError is caught; any other exception
  passes on once \<open>_disconnect\<close> has run; an exception of \<open>_disconnect\<close> itself replaces
  whatever was on its way.  The result is \<open>notify_msg\<close> after the statement, or the
  exception that leaves it.
\<close>

definition transaction :: "link \<Rightarrow> command \<Rightarrow> event list \<Rightarrow> (exn + bytes) \<times> event list" where
  "transaction dev command evs =
     (let (tried, evs1) = try_block dev command evs;
          (released, evs2) = disconnect dev evs1
      in case released of
           Raises e \<Rightarrow> (Inl e, evs2)
         | Returns \<Rightarrow>
            (case tried of
               Inl BleakError \<Rightarrow> (Inr [0], evs2)
             | Inl e \<Rightarrow> (Inl e, evs2)
             | Inr notify_msg \<Rightarrow> (Inr notify_msg, evs2)))"

text \<open>
  What \<open>_sendcommand\<close> returns: the notification bytes, or, on the retry path, the
  coroutine object of the call \<open>self._sendcommand(key, retry - 1)\<close>, which the
  \<open>return\<close> statement does not await.
\<close>

datatype response = Bytes bytes | Retry string int

definition sendcommand ::
    "link \<Rightarrow> switchbot_device \<Rightarrow> string \<Rightarrow> int \<Rightarrow> event list
       \<Rightarrow> (exn + response) \<times> event list" where
  "sendcommand dev self key retry evs =
     (let command = Coroutine (commandkey self key) in
      case transaction dev command evs of
        (Inl e, evs1) \<Rightarrow> (Inl e, evs1)
      | (Inr notify_msg, evs1) \<Rightarrow>
         if notify_msg \<noteq> [] then (Inr (Bytes notify_msg), evs1)
         else if retry < 1 then (Inr (Bytes notify_msg), evs1)
         else (Inr (Retry key (retry - 1)), evs1 @ [Sleep DEFAULT_RETRY_TIMEOUT]))"

section \<open>Device facades\<close>

text \<open>
  \<open>result[0]\<close> on what \<open>_sendcommand\<close> returned: IndexError on empty bytes, TypeError
  on a coroutine object (it is not subscriptable).
\<close>

definition first_byte :: "response \<Rightarrow> exn + int" where
  "first_byte result =
     (case result of
        Bytes [] \<Rightarrow> Inl IndexError
      | Bytes (b # rest) \<Rightarrow> Inr (uint b)
      | Retry key retry \<Rightarrow> Inl TypeError)"

text \<open>
  The statements after the \<open>await\<close> in \<open>turn_on\<close>, \<open>turn_off\<close> and \<open>press\<close>
  (\<open>1_or_5\<close>), and in the other commands (\<open>1\<close>).
\<close>

definition success_1_or_5 :: "response \<Rightarrow> exn + bool" where
  "success_1_or_5 result =
     (case first_byte result of
        Inl e \<Rightarrow> Inl e
      | Inr b \<Rightarrow> Inr (if b = 1 then True else if b = 5 then True else False))"

definition success_1 :: "response \<Rightarrow> exn + bool" where
  "success_1 result =
     (case first_byte result of
        Inl e \<Rightarrow> Inl e
      | Inr b \<Rightarrow> Inr (if b = 1 then True else False))"

text \<open>\<open>result = await self._sendcommand(...)\<close> followed by those statements.\<close>

definition and_then ::
    "(exn + response) \<times> event list \<Rightarrow> (response \<Rightarrow> exn + bool) \<Rightarrow> (exn + bool) \<times> event list" where
  "and_then sent check =
     (case sent of
        (Inl e, evs) \<Rightarrow> (Inl e, evs)
      | (Inr result, evs) \<Rightarrow> (check result, evs))"

subsection \<open>\<open>Switchbot\<close> (Bot)\<close>

record switchbot =
  bot_device :: switchbot_device
  bot_inverse :: bool

definition Switchbot_init ::
    "string \<Rightarrow> string option \<Rightarrow> int \<Rightarrow> kwargs \<Rightarrow> exn + switchbot" where
  "Switchbot_init mac password interface kw =
     (case SwitchbotDevice_init mac password interface kw of
        Inl e \<Rightarrow> Inl e
      | Inr base \<Rightarrow> Inr \<lparr>bot_device = base, bot_inverse = pop (kw_inverse_mode kw) False\<rparr>)"

text \<open>
  The commands take the client, the object and the events so far, and give what the
  coroutine returns or raises together with the events after it.  An argument with a
  default in the source (\<open>switch_mode\<close>, \<open>strength\<close>, \<open>inverse\<close>, \<open>duration\<close>) is passed by
  the caller.
\<close>

definition turn_on :: "link \<Rightarrow> switchbot \<Rightarrow> event list \<Rightarrow> (exn + bool) \<times> event list" where
  "turn_on dev self evs =
     and_then (sendcommand dev (bot_device self) ON_KEY (retry_count (bot_device self)) evs)
       success_1_or_5"

definition turn_off :: "link \<Rightarrow> switchbot \<Rightarrow> event list \<Rightarrow> (exn + bool) \<times> event list" where
  "turn_off dev self evs =
     and_then (sendcommand dev (bot_device self) OFF_KEY (retry_count (bot_device self)) evs)
       success_1_or_5"

definition press :: "link \<Rightarrow> switchbot \<Rightarrow> event list \<Rightarrow> (exn + bool) \<times> event list" where
  "press dev self evs =
     and_then (sendcommand dev (bot_device self) PRESS_KEY (retry_count (bot_device self)) evs)
       success_1_or_5"

definition set_switch_mode ::
    "link \<Rightarrow> switchbot \<Rightarrow> bool \<Rightarrow> int \<Rightarrow> bool \<Rightarrow> event list \<Rightarrow> (exn + bool) \<times> event list" where
  "set_switch_mode dev self switch_mode strength inverse_arg evs =
     (let mode_key = format_bool_b switch_mode @ format_bool_b inverse_arg;
          strength_key = format_02x strength
      in and_then
           (sendcommand dev (bot_device self) (DEVICE_SET_MODE_KEY @ strength_key @ mode_key)
              (retry_count (bot_device self)) evs)
           success_1)"

definition set_long_press ::
    "link \<Rightarrow> switchbot \<Rightarrow> int \<Rightarrow> event list \<Rightarrow> (exn + bool) \<times> event list" where
  "set_long_press dev self duration evs =
     (let duration_key = format_02x duration
      in and_then
           (sendcommand dev (bot_device self) (DEVICE_SET_EXTENDED_KEY @ ''08'' @ duration_key)
              (retry_count (bot_device self)) evs)
           success_1)"

text \<open>
  \<open>is_on()\<close> reads the cache only; \<open>["data"]["isOn"]\<close> raises KeyError when the cached
  entry is not a decoded Bot state.  The result \<open>None\<close> is Python's \<open>None\<close>.
\<close>

definition is_on :: "switchbot \<Rightarrow> exn + bool option" where
  "is_on self =
     (case switchbot_device_data (bot_device self) of
        None \<Rightarrow> Inr None
      | Some entry \<Rightarrow>
         (case entry_data entry of
            WoHand d \<Rightarrow> Inr (Some (if bot_inverse self then \<not> bot_isOn d else bot_isOn d))
          | other \<Rightarrow> Inl KeyError))"

subsection \<open>\<open>SwitchbotCurtain\<close>\<close>

text \<open>
  The methods \<open>open\<close>, \<open>close\<close> and \<open>stop\<close> are \<open>curtain_open\<close>, \<open>curtain_close\<close> and
  \<open>curtain_stop\<close> here.
\<close>

record switchbot_curtain =
  curtain_device :: switchbot_device
  curtain_reverse :: bool

definition SwitchbotCurtain_init ::
    "string \<Rightarrow> string option \<Rightarrow> int \<Rightarrow> kwargs \<Rightarrow> exn + switchbot_curtain" where
  "SwitchbotCurtain_init mac password interface kw =
     (case SwitchbotDevice_init mac password interface kw of
        Inl e \<Rightarrow> Inl e
      | Inr base \<Rightarrow>
         Inr \<lparr>curtain_device = base, curtain_reverse = pop (kw_reverse_mode kw) True\<rparr>)"

definition curtain_open ::
    "link \<Rightarrow> switchbot_curtain \<Rightarrow> event list \<Rightarrow> (exn + bool) \<times> event list" where
  "curtain_open dev self evs =
     and_then
       (sendcommand dev (curtain_device self) OPEN_KEY (retry_count (curtain_device self)) evs)
       success_1"

definition curtain_close ::
    "link \<Rightarrow> switchbot_curtain \<Rightarrow> event list \<Rightarrow> (exn + bool) \<times> event list" where
  "curtain_close dev self evs =
     and_then
       (sendcommand dev (curtain_device self) CLOSE_KEY (retry_count (curtain_device self)) evs)
       success_1"

definition curtain_stop ::
    "link \<Rightarrow> switchbot_curtain \<Rightarrow> event list \<Rightarrow> (exn + bool) \<times> event list" where
  "curtain_stop dev self evs =
     and_then
       (sendcommand dev (curtain_device self) STOP_KEY (retry_count (curtain_device self)) evs)
       success_1"

text \<open>
  \<open>set_position(position)\<close>: \<open>set_position_key\<close> is the key it builds and hands to
  \<open>_sendcommand\<close>.
\<close>

definition set_position_key :: "switchbot_curtain \<Rightarrow> int \<Rightarrow> string" where
  "set_position_key self position =
     (let position = (if curtain_reverse self then 100 - position else position);
          hex_position = percent_02X position
      in POSITION_KEY @ hex_position)"

definition set_position ::
    "link \<Rightarrow> switchbot_curtain \<Rightarrow> int \<Rightarrow> event list \<Rightarrow> (exn + bool) \<times> event list" where
  "set_position dev self position evs =
     and_then
       (sendcommand dev (curtain_device self) (set_position_key self position)
          (retry_count (curtain_device self)) evs)
       success_1"

section \<open>Example objects\<close>

text \<open>A construction with no keyword argument, and the device it builds.\<close>

definition no_kwargs :: kwargs where
  "no_kwargs = \<lparr>kw_scan_timeout = None, kw_retry_count = None, kw_inverse_mode = None,
                 kw_reverse_mode = None\<rparr>"

definition plain_device :: switchbot_device where
  "plain_device =
     \<lparr>dev_interface = ''hci0'', dev_mac = ''AA:BB:CC:DD:EE:FF'', switchbot_device_data = None,
      scan_timeout = 5, retry_count = 3, password_encoded = None\<rparr>"

text \<open>
  A stub client whose first \<open>k\<close> calls of \<open>connect\<close> raise BleakError; every other call
  succeeds, and a read gives \<open>notification\<close>.
\<close>

definition flaky_link :: "nat \<Rightarrow> bytes \<Rightarrow> link" where
  "flaky_link k notification =
     \<lparr>connect_does = (\<lambda>i. if i < k then Raises BleakError else Returns),
      subscribe_does = (\<lambda>i. Returns),
      write_does = (\<lambda>i. Returns),
      read_does = (\<lambda>i. Inr notification),
      disconnect_does = (\<lambda>i. Returns)\<rparr>"

text \<open>A stub client on which the read of the notification times out.\<close>

definition silent_link :: link where
  "silent_link =
     \<lparr>connect_does = (\<lambda>i. Returns),
      subscribe_does = (\<lambda>i. Returns),
      write_does = (\<lambda>i. Returns),
      read_does = (\<lambda>i. Inl TimeoutError),
      disconnect_does = (\<lambda>i. Returns)\<rparr>"

section \<open>Bit fields of a byte\<close>

lemma bit7: "(w AND 0x80 \<noteq> 0) = bit (w::byte) 7"
proof -
  have "(0x80::byte) = 2 ^ 7" by simp
  then show ?thesis by (metis and_exp_eq_0_iff_not_bit)
qed

lemma bit6: "(w AND 0x40 \<noteq> 0) = bit (w::byte) 6"
proof -
  have "(0x40::byte) = 2 ^ 6" by simp
  then show ?thesis by (metis and_exp_eq_0_iff_not_bit)
qed

lemma low7_and: "uint ((w::byte) AND 0x7F) = uint w AND 0x7F"
  by (simp add: uint_and)

lemma low7_range: "0 \<le> uint ((w::byte) AND 0x7F) \<and> uint (w AND 0x7F) \<le> 127"
proof -
  have "(0x7F::int) = mask 7" by (simp add: mask_eq_exp_minus_1)
  then have "uint w AND 0x7F = take_bit 7 (uint w)" by (simp add: take_bit_eq_mask)
  then show ?thesis by (simp add: low7_and take_bit_eq_mod)
qed

lemma magnitude_nonneg:
  "0 \<le> (of_int (uint ((b4::byte) AND 0x7F)) + of_int (uint (b3::byte)) / 10 :: real)"
proof -
  have nn: "0 \<le> (of_int (uint x) :: real)" for x :: byte
    by (rule iffD2 [OF of_int_0_le_iff]) simp
  have "0 \<le> (of_int (uint b3) / 10 :: real)"
    using nn [of b3] by (rule divide_nonneg_nonneg) simp
  with nn [of "b4 AND 0x7F"] show ?thesis by (rule add_nonneg_nonneg)
qed

section \<open>Advertisement decoding\<close>

lemma map_entry_update:
  "AList.map_entry k f (AList.update k v al) = AList.update k (f v) al"
  by (induction al) auto

lemma chr_H: "chr 0x48 = CHR ''H''"
  by code_simp

lemma wohand_scenario:
  "process_wohand (0x48 # 0xC0 # 0x32 # rest)
     = Inr \<lparr>bot_switchMode = True, bot_isOn = False, bot_battery = 50\<rparr>"
  by (simp add: process_wohand_def item_def)

text \<open>
  Claim C6.  For a Curtain payload of at least 5 bytes (the decoder reads bytes 1 to 4),
  with \<open>raw\<close> the bits 0 to 6 of byte 3: the position decoded without reversal is
  \<open>raw\<close> clamped to \<open>[0, 100]\<close>; a \<open>raw\<close> of 100 or more gives 100, and 0 with
  reversal; and the position decoded with reversal is 100 minus the position decoded
  without.
\<close>

theorem C6_wocurtain_position:
  assumes "5 \<le> length d"
  shows "\<exists>r0 r1. process_wocurtain d False = Inr r0 \<and> process_wocurtain d True = Inr r1
           \<and> curtain_position r0 = max (min (uint (d ! 3) AND 0x7F) 100) 0
           \<and> (if 100 \<le> (uint (d ! 3) AND 0x7F)
               then curtain_position r0 = 100 \<and> curtain_position r1 = 0
               else curtain_position r0 = (uint (d ! 3) AND 0x7F))
           \<and> curtain_position r1 = 100 - curtain_position r0
           \<and> 0 \<le> curtain_position r0 \<and> curtain_position r0 \<le> 100
           \<and> 0 \<le> curtain_position r1 \<and> curtain_position r1 \<le> 100"
  using assms low7_range [of "d ! 3"]
  by (simp add: process_wocurtain_def item_def Let_def low7_and)

theorem C6_wocurtain_position_witness:
  "5 \<le> length [0x63, 0x40, 0x32, 0x7F, 0x12 :: byte]
   \<and> (\<exists>r0 r1. process_wocurtain [0x63, 0x40, 0x32, 0x7F, 0x12] False = Inr r0
         \<and> process_wocurtain [0x63, 0x40, 0x32, 0x7F, 0x12] True = Inr r1
         \<and> curtain_position r0 = 100 \<and> curtain_position r1 = 0)"
  using C6_wocurtain_position [of "[0x63, 0x40, 0x32, 0x7F, 0x12]"]
  by (simp add: process_wocurtain_def item_def)

text \<open>
  Claim C7.  For a Bot payload of at least 3 bytes: \<open>switchMode\<close> is bit 7 of byte 1;
  \<open>isOn\<close> is false when \<open>switchMode\<close> is false and the negation of bit 6 of byte 1 when
  it is true; \<open>battery\<close> is byte 2 \<open>& 0x7F\<close>.  An advertisement whose payload starts
  \<open>[0x48, 0xC0, 0x32]\<close> is stored by \<open>detection_callback\<close> as model \<open>H\<close>, \<open>WoHand\<close>,
  with \<open>switchMode = True\<close>, \<open>isOn = False\<close>, \<open>battery = 50\<close>.
\<close>

theorem C7_wohand_decode:
  "(3 \<le> length d \<longrightarrow>
      (\<exists>r. process_wohand d = Inr r
         \<and> bot_switchMode r = bit (d ! 1) 7
         \<and> bot_isOn r = (bot_switchMode r \<and> \<not> bit (d ! 1) 6)
         \<and> bot_battery r = uint (d ! 2) AND 0x7F))
   \<and> detection_callback self device
         \<lparr>adv_service_data = (uuid, 0x48 # 0xC0 # 0x32 # rest) # others\<rparr>
       = (None, self\<lparr>scan_data :=
            AList.update (remove_colons (address device))
              \<lparr>mac_address = address device, service_data = 0x48 # 0xC0 # 0x32 # rest,
                isEncrypted = False, model = CHR ''H'', modelName = Some ''WoHand'',
                entry_data = WoHand \<lparr>bot_switchMode = True, bot_isOn = False,
                                      bot_battery = 50\<rparr>\<rparr>
              (scan_data self)\<rparr>)"
proof (intro conjI impI)
  assume "3 \<le> length d"
  then show "\<exists>r. process_wohand d = Inr r
         \<and> bot_switchMode r = bit (d ! 1) 7
         \<and> bot_isOn r = (bot_switchMode r \<and> \<not> bit (d ! 1) 6)
         \<and> bot_battery r = uint (d ! 2) AND 0x7F"
    by (simp add: process_wohand_def item_def Let_def bit7 bit6 low7_and)
next
  show "detection_callback self device
         \<lparr>adv_service_data = (uuid, 0x48 # 0xC0 # 0x32 # rest) # others\<rparr>
       = (None, self\<lparr>scan_data :=
            AList.update (remove_colons (address device))
              \<lparr>mac_address = address device, service_data = 0x48 # 0xC0 # 0x32 # rest,
                isEncrypted = False, model = CHR ''H'', modelName = Some ''WoHand'',
                entry_data = WoHand \<lparr>bot_switchMode = True, bot_isOn = False,
                                      bot_battery = 50\<rparr>\<rparr>
              (scan_data self)\<rparr>)"
    by (simp add: detection_callback_def Let_def chr_H wohand_scenario map_entry_update)
qed

theorem C7_wohand_decode_witness:
  "3 \<le> length [0x48, 0xC0, 0x32 :: byte]
   \<and> (\<exists>r. process_wohand [0x48, 0xC0, 0x32] = Inr r
         \<and> bot_switchMode r = True \<and> bot_isOn r = False \<and> bot_battery r = 50)"
  using C7_wohand_decode [of "[0x48, 0xC0, 0x32]"]
  by (simp add: process_wohand_def item_def)

text \<open>
  Claim C8.  For a SensorTH payload of at least 6 bytes (the decoder reads bytes 2 to
  5): the Celsius temperature has magnitude \<open>(byte4 & 0x7F) + byte3 / 10\<close> and the sign
  of bit 7 of byte 4: with the bit set it is not negative, with the bit clear it is not
  positive.  The temperature is the exact value of the source's float expression.
\<close>

theorem C8_wosensorth_sign:
  assumes "6 \<le> length d"
  shows "\<exists>r. process_wosensorth d = Inr r
           \<and> \<bar>th_temp_c r\<bar> = of_int (uint (d ! 4) AND 0x7F) + of_int (uint (d ! 3)) / 10
           \<and> th_temp_c r = (if bit (d ! 4) 7 then 1 else - 1) * \<bar>th_temp_c r\<bar>
           \<and> (if bit (d ! 4) 7 then 0 \<le> th_temp_c r else th_temp_c r \<le> 0)"
proof -
  define m :: real where "m = of_int (uint (d ! 4 AND 0x7F)) + of_int (uint (d ! 3)) / 10"
  define s :: real where "s = (if bit (d ! 4) 7 then 1 else - 1)"
  have m0: "0 \<le> m" unfolding m_def by (rule magnitude_nonneg)
  have abs_sm: "\<bar>s * m\<bar> = m" using m0 by (simp add: s_def abs_mult)
  obtain r where r: "process_wosensorth d = Inr r" and c: "th_temp_c r = s * m"
    using assms by (simp add: process_wosensorth_def item_def Let_def bit7 m_def s_def)
  have "\<bar>th_temp_c r\<bar> = of_int (uint (d ! 4) AND 0x7F) + of_int (uint (d ! 3)) / 10"
    using abs_sm c by (simp add: m_def low7_and)
  moreover have "th_temp_c r = (if bit (d ! 4) 7 then 1 else - 1) * \<bar>th_temp_c r\<bar>"
    using abs_sm c by (simp add: s_def)
  moreover have "if bit (d ! 4) 7 then 0 \<le> th_temp_c r else th_temp_c r \<le> 0"
    using m0 c by (simp add: s_def)
  ultimately show ?thesis using r by blast
qed

theorem C8_wosensorth_sign_witness:
  "6 \<le> length [0x54, 0xC0, 0x32, 0x05, 0x99, 0x30 :: byte]
   \<and> (\<exists>r. process_wosensorth [0x54, 0xC0, 0x32, 0x05, 0x99, 0x30] = Inr r
         \<and> th_temp_c r = 25.5 \<and> 0 \<le> th_temp_c r)"
  using C8_wosensorth_sign [of "[0x54, 0xC0, 0x32, 0x05, 0x99, 0x30]"]
  by (simp add: process_wosensorth_def item_def Let_def)

section \<open>The discovery aggregator's getters\<close>

lemma detection_callback_all_services_data:
  "all_services_data (snd (detection_callback self device adv)) = all_services_data self"
  by (simp add: detection_callback_def Let_def split: list.splits sum.splits)

lemma observe_all_services_data:
  "all_services_data (observe self seen) = all_services_data self"
proof (induction seen arbitrary: self)
  case Nil
  then show ?case by (simp add: observe_def)
next
  case (Cons x seen)
  have "observe self (x # seen) = observe (snd (detection_callback self (fst x) (snd x))) seen"
    by (simp add: observe_def split: prod.splits)
  then show ?case by (simp add: Cons.IH detection_callback_all_services_data)
qed

text \<open>
  Claim C5 (the code differs).  \<open>detection_callback\<close> stores every record in
  \<open>self._data\<close>, while \<open>get_device_data\<close>, \<open>get_bots\<close>, \<open>get_curtains\<close> and
  \<open>get_tempsensors\<close> read \<open>self._all_services_data\<close>, which nothing ever writes.  So
  after any scan of a fresh object the lookup of any address gives \<open>{}\<close> and every
  enumeration is empty: here a Bot advertisement for \<open>AA:BB:CC:DD:EE:FF\<close> is stored in
  \<open>_data\<close>, and the lookup of that address still finds nothing.
\<close>

theorem C5_getters_never_see_the_scan:
  "get_device_data (observe (GetSwitchbotDevices_init i) seen) mac = None
   \<and> get_bots (observe (GetSwitchbotDevices_init i) seen) = []
   \<and> get_curtains (observe (GetSwitchbotDevices_init i) seen) = []
   \<and> get_tempsensors (observe (GetSwitchbotDevices_init i) seen) = []
   \<and> scan_data (observe (GetSwitchbotDevices_init 0)
        [(\<lparr>address = ''AA:BB:CC:DD:EE:FF'', rssi = - 60\<rparr>,
          \<lparr>adv_service_data = [(uuid, [0x48, 0xC0, 0x32])]\<rparr>)])
      = [(''AABBCCDDEEFF'',
          \<lparr>mac_address = ''AA:BB:CC:DD:EE:FF'', service_data = [0x48, 0xC0, 0x32],
            isEncrypted = False, model = CHR ''H'', modelName = Some ''WoHand'',
            entry_data = WoHand \<lparr>bot_switchMode = True, bot_isOn = False,
                                  bot_battery = 50\<rparr>\<rparr>)]
   \<and> get_device_data (observe (GetSwitchbotDevices_init 0)
        [(\<lparr>address = ''AA:BB:CC:DD:EE:FF'', rssi = - 60\<rparr>,
          \<lparr>adv_service_data = [(uuid, [0x48, 0xC0, 0x32])]\<rparr>)]) ''AA:BB:CC:DD:EE:FF''
      = None"
proof -
  have e: "all_services_data (observe (GetSwitchbotDevices_init i) seen) = []" for i seen
    by (simp add: observe_all_services_data GetSwitchbotDevices_init_def)
  have "scan_data (observe (GetSwitchbotDevices_init 0)
        [(\<lparr>address = ''AA:BB:CC:DD:EE:FF'', rssi = - 60\<rparr>,
          \<lparr>adv_service_data = [(uuid, [0x48, 0xC0, 0x32])]\<rparr>)])
      = [(''AABBCCDDEEFF'',
          \<lparr>mac_address = ''AA:BB:CC:DD:EE:FF'', service_data = [0x48, 0xC0, 0x32],
            isEncrypted = False, model = CHR ''H'', modelName = Some ''WoHand'',
            entry_data = WoHand \<lparr>bot_switchMode = True, bot_isOn = False,
                                  bot_battery = 50\<rparr>\<rparr>)]"
    by (simp add: observe_def detection_callback_def Let_def chr_H process_wohand_def item_def
          GetSwitchbotDevices_init_def remove_colons_def)
  then show ?thesis
    by (simp add: e get_device_data_def get_bots_def get_curtains_def get_tempsensors_def
          get_by_model_def)
qed

section \<open>The password token\<close>

lemma plain_device_init:
  "SwitchbotDevice_init ''AA:BB:CC:DD:EE:FF'' None 0 no_kwargs = Inr plain_device"
  by (simp add: SwitchbotDevice_init_def no_kwargs_def plain_device_def pop_def str_int_def
        decimal_def DEFAULT_SCAN_TIMEOUT_def DEFAULT_RETRY_COUNT_def)

lemma crc32_c: "crc32 [0x63] = 0x06b9df6f"
  by code_simp

text \<open>
  What \<open>_commandkey\<close> does hold: without a token the key is returned as it is, and with
  one a key of at least 4 characters becomes \<open>571\<close>, its character 3, the token, and
  its characters from 4 on.
\<close>

lemma commandkey_shape:
  "commandkey (self\<lparr>password_encoded := None\<rparr>) key = Inr key"
  "4 \<le> length key \<Longrightarrow>
     commandkey (self\<lparr>password_encoded := Some token\<rparr>) key
       = Inr (''571'' @ [key ! 3] @ token @ drop 4 key)"
  by (simp_all add: commandkey_def KEY_PASSWORD_PREFIX_def)

text \<open>
  Claim C1 (the code differs).  The token is \<open>"%x"\<close> of the CRC-32, which has no leading
  zeros: the password \<open>c\<close> has CRC-32 \<open>0x06b9df6f\<close> and the token \<open>6b9df6f\<close> of 7
  digits, not 8.  The key of \<open>ON_KEY\<close> is then \<open>57116b9df6f01\<close>, 13 characters, which
  \<open>bytearray.fromhex\<close> refuses.
\<close>

theorem C1_token_of_seven_digits:
  "SwitchbotDevice_init ''AA:BB:CC:DD:EE:FF'' (Some ''c'') 0 no_kwargs
     = Inr (plain_device\<lparr>password_encoded := Some ''6b9df6f''\<rparr>)
   \<and> length ''6b9df6f'' = 7
   \<and> commandkey (plain_device\<lparr>password_encoded := Some ''6b9df6f''\<rparr>) ON_KEY
     = Inr ''57116b9df6f01''
   \<and> bytearray_fromhex (Text ''57116b9df6f01'') = Inl ValueError"
  by (simp add: SwitchbotDevice_init_def no_kwargs_def plain_device_def pop_def str_int_def
        decimal_def DEFAULT_SCAN_TIMEOUT_def DEFAULT_RETRY_COUNT_def encode_ascii_def crc32_c
        hex_lower_def commandkey_def ON_KEY_def KEY_PASSWORD_PREFIX_def bytearray_fromhex_def
        hex_digit_def is_space_def)

section \<open>The transaction\<close>

lemma try_block_events:
  "\<exists>ops. snd (try_block dev command evs) = evs @ ops \<and> Disconnect \<notin> set ops"
  by (auto simp: try_block_def connect_def subscribe_def writekey_def readkey_def
           split: outcome.splits sum.splits prod.splits)

lemma transaction_events:
  "\<exists>ops. snd (transaction dev command evs) = evs @ ops @ [Disconnect] \<and> Disconnect \<notin> set ops"
proof -
  obtain ops where ops: "snd (try_block dev command evs) = evs @ ops" "Disconnect \<notin> set ops"
    using try_block_events by blast
  have "snd (transaction dev command evs) = snd (try_block dev command evs) @ [Disconnect]"
    by (simp add: transaction_def disconnect_def
          split: prod.splits outcome.splits sum.splits exn.splits)
  with ops show ?thesis by simp
qed

text \<open>
  Two runs of the \<open>try\<close> statement with a string as command: a notification that
  arrives, and a read that times out.  In both the last call on the client is the
  disconnect.
\<close>

lemma transaction_examples:
  "transaction (flaky_link 0 [1]) (Text ON_KEY) []
     = (Inr [1], [Connect, Subscribe, Write [0x57, 0x01, 0x01], Read, Disconnect])"
  "transaction silent_link (Text ON_KEY) []
     = (Inl TimeoutError, [Connect, Subscribe, Write [0x57, 0x01, 0x01], Read, Disconnect])"
  by (simp_all add: transaction_def try_block_def connect_def subscribe_def writekey_def
        readkey_def bytearray_fromhex_def disconnect_def flaky_link_def silent_link_def
        written_def ON_KEY_def hex_digit_def is_space_def)

text \<open>
  Claim C9.  Whatever the client's calls do (return, raise BleakError, raise anything
  else such as a timeout) and whatever the command is, the \<open>try / finally\<close> statement
  of \<open>_sendcommand\<close> calls disconnect exactly once, after every other call on the
  client; and so does a call of \<open>_sendcommand\<close>, which runs that statement once and
  after it at most sleeps.  The events are those the call adds to the ones before it.
\<close>

theorem C9_disconnect_once:
  "(\<exists>ops. snd (transaction dev command evs) = evs @ ops @ [Disconnect]
            \<and> Disconnect \<notin> set ops)
   \<and> (\<exists>ops. (snd (sendcommand dev self key retry evs) = evs @ ops @ [Disconnect]
              \<or> snd (sendcommand dev self key retry evs)
                   = evs @ ops @ [Disconnect, Sleep DEFAULT_RETRY_TIMEOUT])
            \<and> Disconnect \<notin> set ops)
   \<and> count_list (snd (sendcommand dev self key retry evs)) Disconnect
       = count_list evs Disconnect + 1"
proof -
  let ?c = "Coroutine (commandkey self key)"
  obtain ops where ops: "snd (transaction dev ?c evs) = evs @ ops @ [Disconnect]"
      "Disconnect \<notin> set ops"
    using transaction_events by blast
  have s: "snd (sendcommand dev self key retry evs) = snd (transaction dev ?c evs)
         \<or> snd (sendcommand dev self key retry evs)
              = snd (transaction dev ?c evs) @ [Sleep DEFAULT_RETRY_TIMEOUT]"
    by (simp add: sendcommand_def Let_def split: prod.splits sum.splits)
  have c: "count_list ops Disconnect = 0" using ops(2) by (simp add: count_list_0_iff)
  have "count_list (snd (sendcommand dev self key retry evs)) Disconnect
       = count_list evs Disconnect + 1"
    using s ops(1) c by auto
  moreover have "\<exists>ops. (snd (sendcommand dev self key retry evs) = evs @ ops @ [Disconnect]
              \<or> snd (sendcommand dev self key retry evs)
                   = evs @ ops @ [Disconnect, Sleep DEFAULT_RETRY_TIMEOUT])
            \<and> Disconnect \<notin> set ops"
    using s ops by auto
  ultimately show ?thesis using transaction_events by blast
qed

text \<open>
  Claim C2 (the code differs).  \<open>notify_msg\<close> starts as \<open>b"\x00"\<close>, which is not empty,
  so after a BleakError the test \<open>if notify_msg\<close> succeeds and \<open>_sendcommand\<close> returns
  \<open>b"\x00"\<close> at once: with a client whose first connect fails and whose later calls
  would all succeed with the notification \<open>b"\x01"\<close>, and 3 retries allowed, the call
  makes one attempt and returns \<open>b"\x00"\<close>.  With a client that never fails, the
  command handed to \<open>_writekey\<close> is the coroutine object of \<open>_commandkey\<close>, and the call
  raises TypeError after disconnecting.
\<close>

theorem C2_no_retry_after_link_error:
  "sendcommand (flaky_link 1 [1]) plain_device ON_KEY 3 []
     = (Inr (Bytes [0]), [Connect, Disconnect])
   \<and> sendcommand (flaky_link 0 [1]) plain_device ON_KEY 3 []
     = (Inl TypeError, [Connect, Subscribe, Disconnect])"
  by (simp add: sendcommand_def transaction_def try_block_def connect_def subscribe_def
        writekey_def bytearray_fromhex_def disconnect_def flaky_link_def)

section \<open>The facades\<close>

lemma uint_is_1: "(uint (b::byte) = 1) = (b = 1)"
  by (metis uint_1 word_uint_eq_iff)

lemma uint_is_5: "(uint (b::byte) = 5) = (b = 5)"
proof -
  have "uint (5::byte) = 5" by simp
  then show ?thesis by (metis word_uint_eq_iff)
qed

text \<open>On a result that is not empty the commands do map the first byte to a bool.\<close>

lemma success_nonempty:
  "success_1_or_5 (Bytes (b # rest)) = Inr (b = 1 \<or> b = 5)"
  "success_1 (Bytes (b # rest)) = Inr (b = 1)"
  by (auto simp: success_1_or_5_def success_1_def first_byte_def uint_is_1 uint_is_5)

text \<open>
  Claim C3 (the code differs).  Every mutating command evaluates \<open>result[0]\<close> without
  testing the result first, so on the empty result \<open>b""\<close> it raises IndexError and
  returns no bool: this holds for the statements of \<open>turn_on\<close>, \<open>turn_off\<close> and
  \<open>press\<close> and for those of the six other commands.  And on a client whose calls all
  succeed \<open>turn_on\<close> raises the TypeError of \<open>_sendcommand\<close>.
\<close>

theorem C3_empty_result_raises:
  "and_then (Inr (Bytes []), evs) success_1_or_5 = (Inl IndexError, evs)
   \<and> and_then (Inr (Bytes []), evs) success_1 = (Inl IndexError, evs)
   \<and> turn_on (flaky_link 0 [1]) \<lparr>bot_device = plain_device, bot_inverse = False\<rparr> []
        = (Inl TypeError, [Connect, Subscribe, Disconnect])"
  by (simp add: and_then_def success_1_or_5_def success_1_def first_byte_def turn_on_def
        sendcommand_def transaction_def try_block_def connect_def subscribe_def
        writekey_def bytearray_fromhex_def disconnect_def flaky_link_def)

text \<open>
  Claim C10.  \<open>is_on\<close> is a function of the object alone (it takes no client and adds
  no event).  With no cached state it returns \<open>None\<close>; with a cached Bot state it
  returns the negation of the stored \<open>isOn\<close> when \<open>inverse_mode\<close> was given as true and
  the stored \<open>isOn\<close> otherwise.  The constructor sets the flag from the keyword
  \<open>inverse_mode\<close>, false when not given, and leaves the cache empty.
\<close>

theorem C10_is_on_cached:
  "is_on \<lparr>bot_device = base\<lparr>switchbot_device_data := None\<rparr>, bot_inverse = flag\<rparr> = Inr None
   \<and> is_on \<lparr>bot_device = base\<lparr>switchbot_device_data := Some (entry\<lparr>entry_data := WoHand d\<rparr>)\<rparr>,
             bot_inverse = True\<rparr> = Inr (Some (\<not> bot_isOn d))
   \<and> is_on \<lparr>bot_device = base\<lparr>switchbot_device_data := Some (entry\<lparr>entry_data := WoHand d\<rparr>)\<rparr>,
             bot_inverse = False\<rparr> = Inr (Some (bot_isOn d))
   \<and> (Switchbot_init mac password interface kw = Inr self \<longrightarrow>
        bot_inverse self = (case kw_inverse_mode kw of None \<Rightarrow> False | Some b \<Rightarrow> b)
        \<and> switchbot_device_data (bot_device self) = None
        \<and> is_on self = Inr None)"
  by (auto simp: is_on_def Switchbot_init_def SwitchbotDevice_init_def pop_def Let_def
           split: sum.splits option.splits if_splits)

theorem C10_is_on_cached_witness:
  "Switchbot_init ''AA:BB:CC:DD:EE:FF'' None 0 (no_kwargs\<lparr>kw_inverse_mode := Some True\<rparr>)
     = Inr \<lparr>bot_device = plain_device, bot_inverse = True\<rparr>
   \<and> bot_inverse \<lparr>bot_device = plain_device, bot_inverse = True\<rparr> = True
   \<and> is_on \<lparr>bot_device = plain_device, bot_inverse = True\<rparr> = Inr None"
  using C10_is_on_cached [where mac = "''AA:BB:CC:DD:EE:FF''" and password = None
      and interface = 0 and kw = "no_kwargs\<lparr>kw_inverse_mode := Some True\<rparr>"
      and self = "\<lparr>bot_device = plain_device, bot_inverse = True\<rparr>"]
  by (simp add: Switchbot_init_def SwitchbotDevice_init_def no_kwargs_def plain_device_def
        pop_def str_int_def decimal_def DEFAULT_SCAN_TIMEOUT_def DEFAULT_RETRY_COUNT_def)

section \<open>The position command\<close>

lemma below_16:
  assumes "k < (16::nat)"
  shows "k = 0 \<or> k = 1 \<or> k = 2 \<or> k = 3 \<or> k = 4 \<or> k = 5 \<or> k = 6 \<or> k = 7
       \<or> k = 8 \<or> k = 9 \<or> k = 10 \<or> k = 11 \<or> k = 12 \<or> k = 13 \<or> k = 14 \<or> k = 15"
  using assms by arith

lemma upper_digit:
  assumes "k < 16"
  shows "hex_digit (''0123456789ABCDEF'' ! k) = Some k
       \<and> \<not> is_space (''0123456789ABCDEF'' ! k)"
  using below_16 [OF assms] by (elim disjE) (simp_all add: hex_digit_def is_space_def)

lemma hex_upper_byte:
  assumes "n < 256"
  shows "zfill 2 (hex_upper n)
           = [''0123456789ABCDEF'' ! (n div 16), ''0123456789ABCDEF'' ! (n mod 16)]"
proof (cases "n < 16")
  case True
  then have "hex_upper n = [''0123456789ABCDEF'' ! n]"
    unfolding hex_upper_def by (subst radix.simps) simp
  with True show ?thesis by (simp add: zfill_def)
next
  case False
  then have "hex_upper n
      = radix ''0123456789ABCDEF'' (n div 16) @ [''0123456789ABCDEF'' ! (n mod 16)]"
    unfolding hex_upper_def by (subst radix.simps) simp
  moreover have "n div 16 < 16" using assms by simp
  then have "radix ''0123456789ABCDEF'' (n div 16) = [''0123456789ABCDEF'' ! (n div 16)]"
    by (subst radix.simps) simp
  ultimately show ?thesis by (simp add: zfill_def)
qed

lemma fromhex_percent_02X:
  assumes "0 \<le> q" "q < 256"
  shows "length (percent_02X q) = 2 \<and> fromhex (percent_02X q) = Some [word_of_int q]"
proof -
  let ?n = "nat q"
  have n: "?n < 256" using assms by simp
  have hi: "?n div 16 < 16" and lo: "?n mod 16 < 16" using n by simp_all
  have p: "percent_02X q
             = [''0123456789ABCDEF'' ! (?n div 16), ''0123456789ABCDEF'' ! (?n mod 16)]"
    using assms hex_upper_byte [OF n] by (simp add: percent_02X_def)
  have "fromhex (percent_02X q) = Some [of_nat (16 * (?n div 16) + ?n mod 16)]"
    unfolding p using upper_digit [OF hi] upper_digit [OF lo] by simp
  moreover have "16 * (?n div 16) + ?n mod 16 = ?n" by simp
  moreover have "(of_nat ?n :: byte) = word_of_int q" using assms by simp
  ultimately show ?thesis using p by simp
qed

lemma fromhex_POSITION_KEY:
  "fromhex (POSITION_KEY @ s)
     = map_option ((@) [0x57, 0x0F, 0x45, 0x01, 0x05, 0xFF]) (fromhex s)"
proof -
  have "(\<lambda>x. 0x57 # 0x0F # 0x45 # 0x01 # 0x05 # 0xFF # x)
          = (@) [0x57, 0x0F, 0x45, 0x01, 0x05, 0xFF :: byte]"
    by (rule ext) simp
  then show ?thesis
    by (simp add: POSITION_KEY_def hex_digit_def is_space_def option.map_comp comp_def)
qed

text \<open>
  Claim C4, as amended.  For a position from 0 to 100, with \<open>q\<close> the position, or 100
  minus it in reverse mode: \<open>set_position\<close> builds \<open>POSITION_KEY\<close> followed by exactly
  two hexadecimal digits, the bytes of that key end with the byte \<open>q\<close>, and \<open>q\<close> lies
  between \<open>0x00\<close> and \<open>0x64\<close>.  Nothing is clamped.
\<close>

theorem C4_set_position_in_range:
  assumes "0 \<le> position" and "position \<le> 100"
  shows "let q = (if curtain_reverse self then 100 - position else position) in
           set_position_key self position = POSITION_KEY @ percent_02X q
         \<and> length (percent_02X q) = 2
         \<and> fromhex (set_position_key self position)
              = Some [0x57, 0x0F, 0x45, 0x01, 0x05, 0xFF, word_of_int q]
         \<and> uint (word_of_int q :: byte) = q
         \<and> 0 \<le> q \<and> q \<le> 100"
proof -
  define q where "q = (if curtain_reverse self then 100 - position else position)"
  have q: "0 \<le> q" "q \<le> 100" using assms by (simp_all add: q_def)
  then have q256: "q < 256" by simp
  have k: "set_position_key self position = POSITION_KEY @ percent_02X q"
    by (simp add: set_position_key_def q_def)
  have u: "uint (word_of_int q :: byte) = q"
    using q by (simp add: uint_word_of_int take_bit_eq_mod)
  show ?thesis
    unfolding Let_def q_def [symmetric]
    using k q u fromhex_percent_02X [OF q(1) q256] by (simp add: fromhex_POSITION_KEY)
qed

theorem C4_set_position_in_range_witness:
  "(0::int) \<le> 30 \<and> (30::int) \<le> 100
   \<and> set_position_key \<lparr>curtain_device = plain_device, curtain_reverse = True\<rparr> 30
       = ''570F450105ff46''
   \<and> fromhex ''570F450105ff46'' = Some [0x57, 0x0F, 0x45, 0x01, 0x05, 0xFF, 0x46]"
  using C4_set_position_in_range
          [of 30 "\<lparr>curtain_device = plain_device, curtain_reverse = True\<rparr>"]
  by (simp add: set_position_key_def percent_02X_def hex_upper_def zfill_def POSITION_KEY_def
        hex_digit_def is_space_def)

text \<open>
  Claim C4 as stated fails: the position 150 is not clamped to 100.  Without reverse
  mode the key ends with the byte \<open>0x96\<close>, which is 150 and above \<open>0x64\<close>; in reverse
  mode it ends with the text \<open>-32\<close>, which is no byte at all.
\<close>

theorem C4_out_of_range_not_clamped:
  "set_position_key \<lparr>curtain_device = plain_device, curtain_reverse = False\<rparr> 150
       = ''570F450105ff96''
   \<and> fromhex ''570F450105ff96'' = Some [0x57, 0x0F, 0x45, 0x01, 0x05, 0xFF, 0x96]
   \<and> \<not> uint (0x96 :: byte) \<le> 100
   \<and> set_position_key \<lparr>curtain_device = plain_device, curtain_reverse = True\<rparr> 150
       = ''570F450105ff-32''
   \<and> fromhex ''570F450105ff-32'' = None"
  by (simp add: set_position_key_def percent_02X_def hex_upper_def zfill_def POSITION_KEY_def
        hex_digit_def is_space_def)

end
